theory Spec2Isabelle
  imports Complex_Main "HOL-Library.Multiset" "HOL-Library.Sublist"
begin

section \<open>GAP fitting tools (bindings/rascal/models/gaptools.py)\<close>

text \<open>
  Arithmetic is modelled over the reals: numpy's float64 rounding, infinities and NaN are
  not represented.  A 1-D array is a list, a 2-D array a record of its column count and
  its rows (the column count is kept so that an array of shape (0, M) is a value).
\<close>

subsection \<open>Data model\<close>

datatype py_error = TypeError | ValueError | LinAlgError | ExternalError

text \<open>An ASE Atoms object, as far as this module reads it: the atomic numbers, one per
  atom.  \<open>len(geom)\<close> is the number of atoms.\<close>

record atoms =
  numbers :: "int list"

definition get_atomic_numbers :: "atoms \<Rightarrow> int list" where
  "get_atomic_numbers geom = numbers geom"

definition len_atoms :: "atoms \<Rightarrow> nat" where
  "len_atoms geom = length (numbers geom)"

text \<open>The baseline table is a Python dict from species to energy per atom; the loop
  walks \<open>items()\<close> in the dict's order, so it is an association list.  A dict holds
  each key once: \<open>distinct (map fst tbl)\<close>.\<close>

type_synonym baseline_table = "(int \<times> real) list"

subsection \<open>\<open>_get_energy_baseline\<close>\<close>

text \<open>\<open>np.sum(geom.get_atomic_numbers() == species)\<close>: the number of atoms of that
  species.\<close>

definition np_sum_eq :: "int list \<Rightarrow> int \<Rightarrow> nat" where
  "np_sum_eq nums species = length (filter (\<lambda>z. z = species) nums)"

text \<open>The \<open>for species, e0_value in atom_contributions.items()\<close> loop, with the
  accumulator \<open>e0\<close>.\<close>

fun baseline_loop :: "atoms \<Rightarrow> baseline_table \<Rightarrow> real \<Rightarrow> real" where
  "baseline_loop geom [] e0 = e0"
| "baseline_loop geom ((species, e0_value) # items) e0 =
     baseline_loop geom items
       (e0 + e0_value * real (np_sum_eq (get_atomic_numbers geom) species))"

definition get_energy_baseline :: "atoms \<Rightarrow> baseline_table \<Rightarrow> real" where
  "get_energy_baseline geom atom_contributions = baseline_loop geom atom_contributions 0"

text \<open>Following the spec's words: the value the table gives an atom of species \<open>z\<close>,
  zero when the species is absent, and the sum of these values over the atoms.\<close>

definition table_value :: "baseline_table \<Rightarrow> int \<Rightarrow> real" where
  "table_value tbl z = (case map_of tbl z of None \<Rightarrow> 0 | Some v \<Rightarrow> v)"

definition baseline_spec :: "atoms \<Rightarrow> baseline_table \<Rightarrow> real" where
  "baseline_spec geom tbl = (\<Sum>z\<leftarrow>numbers geom. table_value tbl z)"

subsection \<open>numpy arrays and the operations \<open>fit_gap_simple\<close> applies to them\<close>

type_synonym vec = "real list"

record matrix =
  ncols :: nat
  rows :: "real list list"

definition nrows :: "matrix \<Rightarrow> nat" where
  "nrows A = length (rows A)"

text \<open>Every row of a 2-D array has the array's column count.\<close>

definition wf_matrix :: "matrix \<Rightarrow> bool" where
  "wf_matrix A = list_all (\<lambda>r. length r = ncols A) (rows A)"

text \<open>Forces come as an array of shape P x 3, or N x Q x 3.\<close>

datatype forces = Forces2 "real list list" | Forces3 "real list list list"

definition bind_err :: "py_error + 'a \<Rightarrow> ('a \<Rightarrow> py_error + 'b) \<Rightarrow> py_error + 'b" where
  "bind_err m f = (case m of Inl e \<Rightarrow> Inl e | Inr x \<Rightarrow> f x)"

text \<open>Broadcasting of one axis: equal lengths, or one of them 1, which is then repeated;
  anything else is numpy's ValueError.\<close>

definition broadcast_len :: "nat \<Rightarrow> nat \<Rightarrow> nat option" where
  "broadcast_len m n =
     (if m = n then Some m else if m = 1 then Some n else if n = 1 then Some m else None)"

definition stretch :: "nat \<Rightarrow> 'a list \<Rightarrow> 'a list" where
  "stretch n xs = (if length xs = n then xs else replicate n (hd xs))"

text \<open>\<open>a - b\<close> and \<open>a / b\<close> on 1-D arrays.\<close>

definition np_binop_vec :: "(real \<Rightarrow> real \<Rightarrow> real) \<Rightarrow> vec \<Rightarrow> vec \<Rightarrow> py_error + vec" where
  "np_binop_vec f xs ys =
     (case broadcast_len (length xs) (length ys) of
        None \<Rightarrow> Inl ValueError
      | Some n \<Rightarrow> Inr (map2 f (stretch n xs) (stretch n ys)))"

text \<open>\<open>A / c[:, np.newaxis]\<close>: shapes (R, M) and (N, 1); the column axis always
  broadcasts, the row axis may fail.\<close>

definition np_div_column :: "matrix \<Rightarrow> vec \<Rightarrow> py_error + matrix" where
  "np_div_column A c =
     (case broadcast_len (nrows A) (length c) of
        None \<Rightarrow> Inl ValueError
      | Some n \<Rightarrow>
          Inr \<lparr>ncols = ncols A,
               rows = map2 (\<lambda>row d. map (\<lambda>x. x / d) row) (stretch n (rows A)) (stretch n c)\<rparr>)"

text \<open>\<open>A / s\<close> and \<open>v / s\<close> for a scalar \<open>s\<close>; \<open>-1 * forces\<close>; \<open>flatten()\<close>
  in row-major order.\<close>

definition np_div_scalar :: "matrix \<Rightarrow> real \<Rightarrow> matrix" where
  "np_div_scalar A s = \<lparr>ncols = ncols A, rows = map (map (\<lambda>x. x / s)) (rows A)\<rparr>"

definition np_div_scalar_vec :: "vec \<Rightarrow> real \<Rightarrow> vec" where
  "np_div_scalar_vec v s = map (\<lambda>x. x / s) v"

fun np_neg_forces :: "forces \<Rightarrow> forces" where
  "np_neg_forces (Forces2 f) = Forces2 (map (map (\<lambda>x. -1 * x)) f)"
| "np_neg_forces (Forces3 f) = Forces3 (map (map (map (\<lambda>x. -1 * x))) f)"

fun flatten :: "forces \<Rightarrow> vec" where
  "flatten (Forces2 f) = concat f"
| "flatten (Forces3 f) = concat (map concat f)"

text \<open>\<open>np.vstack\<close> of two 2-D arrays needs equal column counts; \<open>np.concatenate\<close>
  of two 1-D arrays is append.\<close>

definition np_vstack :: "matrix \<Rightarrow> matrix \<Rightarrow> py_error + matrix" where
  "np_vstack A B =
     (if ncols A \<noteq> ncols B then Inl ValueError
      else Inr \<lparr>ncols = ncols A, rows = rows A @ rows B\<rparr>)"

definition np_concatenate :: "vec \<Rightarrow> vec \<Rightarrow> vec" where
  "np_concatenate u v = u @ v"

text \<open>\<open>A.T\<close>, \<open>A @ B\<close> for 2-D arrays, \<open>A @ y\<close> for a 1-D \<open>y\<close>, and \<open>A + B\<close>
  with both axes broadcast.\<close>

definition column :: "matrix \<Rightarrow> nat \<Rightarrow> vec" where
  "column A j = map (\<lambda>r. r ! j) (rows A)"

definition np_transpose :: "matrix \<Rightarrow> matrix" where
  "np_transpose A = \<lparr>ncols = nrows A, rows = map (column A) [0..<ncols A]\<rparr>"

definition dot :: "vec \<Rightarrow> vec \<Rightarrow> real" where
  "dot u v = sum_list (map2 (*) u v)"

definition np_matmul :: "matrix \<Rightarrow> matrix \<Rightarrow> py_error + matrix" where
  "np_matmul A B =
     (if ncols A \<noteq> nrows B then Inl ValueError
      else Inr \<lparr>ncols = ncols B,
                rows = map (\<lambda>ra. map (\<lambda>j. dot ra (column B j)) [0..<ncols B]) (rows A)\<rparr>)"

definition np_matvec :: "matrix \<Rightarrow> vec \<Rightarrow> py_error + vec" where
  "np_matvec A y =
     (if ncols A \<noteq> length y then Inl ValueError
      else Inr (map (\<lambda>ra. dot ra y) (rows A)))"

definition np_add_matrix :: "matrix \<Rightarrow> matrix \<Rightarrow> py_error + matrix" where
  "np_add_matrix A B =
     (case (broadcast_len (nrows A) (nrows B), broadcast_len (ncols A) (ncols B)) of
        (Some r, Some c) \<Rightarrow>
          Inr \<lparr>ncols = c,
               rows = map2 (\<lambda>ra rb. map2 (+) (stretch c ra) (stretch c rb))
                        (stretch r (rows A)) (stretch r (rows B))\<rparr>
      | _ \<Rightarrow> Inl ValueError)"

text \<open>\<open>numpy.linalg.lstsq\<close> is a library routine, not code of this module: the model
  takes it as a parameter, from the matrix, the right-hand side and \<open>rcond\<close> to the
  solution (the first component of what numpy returns) or an error.\<close>

type_synonym lstsq_solver = "matrix \<Rightarrow> vec \<Rightarrow> real option \<Rightarrow> py_error + vec"

subsection \<open>\<open>fit_gap_simple\<close>\<close>

text \<open>The force branch divides by \<open>kernel_gradients_sparse\<close> and \<open>force_regularizer\<close>
  as they are; Python's \<open>None\<close> as an operand of \<open>/\<close> is a TypeError.\<close>

definition div_gradients :: "matrix option \<Rightarrow> real option \<Rightarrow> py_error + matrix" where
  "div_gradients kernel_gradients_sparse force_regularizer =
     (case (kernel_gradients_sparse, force_regularizer) of
        (Some kg, Some fr) \<Rightarrow> Inr (np_div_scalar kg fr)
      | _ \<Rightarrow> Inl TypeError)"

definition div_targets :: "vec \<Rightarrow> real option \<Rightarrow> py_error + vec" where
  "div_targets g force_regularizer =
     (case force_regularizer of Some fr \<Rightarrow> Inr (np_div_scalar_vec g fr) | None \<Rightarrow> Inl TypeError)"

text \<open>Lines 213 to 228: the design matrix \<open>K_NM\<close> and the targets \<open>Y\<close>.\<close>

definition assemble_design ::
  "atoms list \<Rightarrow> vec \<Rightarrow> matrix \<Rightarrow> real \<Rightarrow> baseline_table \<Rightarrow>
   forces option \<Rightarrow> matrix option \<Rightarrow> real option \<Rightarrow> py_error + (matrix \<times> vec)" where
  "assemble_design geoms energies kernel_energies_sparse energy_regularizer_peratom
       energy_atom_contributions forces kernel_gradients_sparse force_regularizer =
     (let e0_all = map (\<lambda>geom. get_energy_baseline geom energy_atom_contributions) geoms in
      bind_err (np_binop_vec (-) energies e0_all) (\<lambda>energies_shifted.
      let natoms_list = map len_atoms geoms;
          energy_regularizer =
            map (\<lambda>n. energy_regularizer_peratom * sqrt (real n)) natoms_list in
      bind_err (np_div_column kernel_energies_sparse energy_regularizer) (\<lambda>kernel_energies_norm.
      case forces of
        Some f \<Rightarrow>
          let gradients = np_neg_forces f in
          bind_err (div_gradients kernel_gradients_sparse force_regularizer) (\<lambda>kernel_gradients_norm.
          bind_err (np_vstack kernel_energies_norm kernel_gradients_norm) (\<lambda>K_NM.
          bind_err (np_binop_vec (/) energies_shifted energy_regularizer) (\<lambda>y_energies.
          bind_err (div_targets (flatten gradients) force_regularizer) (\<lambda>y_gradients.
          Inr (K_NM, np_concatenate y_energies y_gradients)))))
      | None \<Rightarrow>
          bind_err (np_binop_vec (/) energies_shifted energy_regularizer) (\<lambda>Y.
          Inr (kernel_energies_norm, Y)))))"

text \<open>Lines 229 to 231: the normal equations and the solve.\<close>

definition solve_normal_equations ::
  "lstsq_solver \<Rightarrow> matrix \<Rightarrow> matrix \<Rightarrow> vec \<Rightarrow> real option \<Rightarrow> py_error + vec" where
  "solve_normal_equations lstsq kernel_sparse K_NM Y rcond =
     bind_err (np_matmul (np_transpose K_NM) K_NM) (\<lambda>KtK.
     bind_err (np_add_matrix kernel_sparse KtK) (\<lambda>K.
     bind_err (np_matvec (np_transpose K_NM) Y) (\<lambda>b.
     lstsq K b rcond)))"

definition fit_gap_simple ::
  "lstsq_solver \<Rightarrow> atoms list \<Rightarrow> matrix \<Rightarrow> vec \<Rightarrow> matrix \<Rightarrow> real \<Rightarrow> baseline_table \<Rightarrow>
   forces option \<Rightarrow> matrix option \<Rightarrow> real option \<Rightarrow> real option \<Rightarrow> py_error + vec" where
  "fit_gap_simple lstsq geoms kernel_sparse energies kernel_energies_sparse
       energy_regularizer_peratom energy_atom_contributions
       forces kernel_gradients_sparse force_regularizer rcond =
     bind_err (assemble_design geoms energies kernel_energies_sparse energy_regularizer_peratom
                 energy_atom_contributions forces kernel_gradients_sparse force_regularizer)
       (\<lambda>(K_NM, Y). solve_normal_equations lstsq kernel_sparse K_NM Y rcond)"

text \<open>Following the spec's words, by index: the scale of structure \<open>i\<close>, the energy block,
  the gradient block, the normal equations.\<close>

definition energy_scale :: "real \<Rightarrow> atoms \<Rightarrow> real" where
  "energy_scale ereg geom = ereg * sqrt (real (len_atoms geom))"

definition spec_energy_rows :: "real \<Rightarrow> atoms list \<Rightarrow> matrix \<Rightarrow> real list list" where
  "spec_energy_rows ereg geoms K_E =
     map (\<lambda>i. map (\<lambda>x. x / energy_scale ereg (geoms ! i)) (rows K_E ! i)) [0..<length geoms]"

definition spec_energy_targets ::
  "real \<Rightarrow> baseline_table \<Rightarrow> atoms list \<Rightarrow> vec \<Rightarrow> vec" where
  "spec_energy_targets ereg tbl geoms energies =
     map (\<lambda>i. (energies ! i - get_energy_baseline (geoms ! i) tbl) / energy_scale ereg (geoms ! i))
       [0..<length geoms]"

definition spec_gradient_rows :: "real \<Rightarrow> matrix \<Rightarrow> real list list" where
  "spec_gradient_rows freg K_G = map (map (\<lambda>x. x / freg)) (rows K_G)"

definition spec_gradient_targets :: "real \<Rightarrow> forces \<Rightarrow> vec" where
  "spec_gradient_targets freg f = map (\<lambda>x. (- x) / freg) (flatten f)"

definition entry :: "matrix \<Rightarrow> nat \<Rightarrow> nat \<Rightarrow> real" where
  "entry A i j = rows A ! i ! j"

definition spec_normal_matrix :: "matrix \<Rightarrow> matrix \<Rightarrow> matrix" where
  "spec_normal_matrix K_MM K_NM =
     \<lparr>ncols = ncols K_NM,
      rows = map (\<lambda>i. map (\<lambda>j. entry K_MM i j
                              + (\<Sum>k\<leftarrow>[0..<nrows K_NM]. entry K_NM k i * entry K_NM k j))
                       [0..<ncols K_NM])
               [0..<ncols K_NM]\<rparr>"

definition spec_normal_rhs :: "matrix \<Rightarrow> vec \<Rightarrow> vec" where
  "spec_normal_rhs K_NM Y =
     map (\<lambda>i. \<Sum>k\<leftarrow>[0..<nrows K_NM]. entry K_NM k i * Y ! k) [0..<ncols K_NM]"

text \<open>The force-fitting configuration: the forces, the gradient kernel and the force
  regularizer.  Without it the design has the energy block only; with it the gradient
  block follows the energy block.\<close>

definition spec_K_NM ::
  "real \<Rightarrow> atoms list \<Rightarrow> matrix \<Rightarrow> (forces \<times> matrix \<times> real) option \<Rightarrow> matrix" where
  "spec_K_NM ereg geoms K_E grad =
     \<lparr>ncols = ncols K_E,
      rows = spec_energy_rows ereg geoms K_E
             @ (case grad of None \<Rightarrow> [] | Some (f, K_G, freg) \<Rightarrow> spec_gradient_rows freg K_G)\<rparr>"

definition spec_Y ::
  "real \<Rightarrow> baseline_table \<Rightarrow> atoms list \<Rightarrow> vec \<Rightarrow> (forces \<times> matrix \<times> real) option \<Rightarrow> vec" where
  "spec_Y ereg tbl geoms energies grad =
     spec_energy_targets ereg tbl geoms energies
     @ (case grad of None \<Rightarrow> [] | Some (f, K_G, freg) \<Rightarrow> spec_gradient_targets freg f)"

text \<open>What a least-squares solver promises: \<open>w\<close> minimises the squared residual of
  \<open>A w = b\<close>, and among the minimisers has the least norm.\<close>

definition residual :: "matrix \<Rightarrow> vec \<Rightarrow> vec \<Rightarrow> real" where
  "residual A b w = (\<Sum>i\<leftarrow>[0..<nrows A]. (dot (rows A ! i) w - b ! i)\<^sup>2)"

definition least_squares :: "matrix \<Rightarrow> vec \<Rightarrow> vec \<Rightarrow> bool" where
  "least_squares A b w \<longleftrightarrow>
     length w = ncols A \<and> (\<forall>w'. length w' = ncols A \<longrightarrow> residual A b w \<le> residual A b w')"

definition min_norm_least_squares :: "matrix \<Rightarrow> vec \<Rightarrow> vec \<Rightarrow> bool" where
  "min_norm_least_squares A b w \<longleftrightarrow>
     least_squares A b w \<and> (\<forall>w'. least_squares A b w' \<longrightarrow> dot w w \<le> dot w' w')"

text \<open>A solver for systems of one equation in one unknown, to run the fit on small
  inputs: \<open>a w = y\<close> has the solution \<open>y / a\<close>, and for \<open>a = 0\<close> the least-norm
  minimiser is 0.\<close>

definition lstsq_1x1 :: lstsq_solver where
  "lstsq_1x1 A b rcond =
     (case (rows A, b) of
        ([[a]], [y]) \<Rightarrow>
          if ncols A = 1 then Inr [if a = 0 then 0 else y / a] else Inl LinAlgError
      | _ \<Rightarrow> Inl LinAlgError)"

subsection \<open>\<open>compute_kernels\<close>\<close>

text \<open>What a kernel evaluation returns, and \<open>np.array([])\<close>: an array of one or of two
  dimensions.\<close>

datatype ndarray = Array1 vec | Array2 matrix

definition np_array_empty :: ndarray where
  "np_array_empty = Array1 []"

text \<open>A call \<open>kernel(X, Y=None, grad=(False, False))\<close> of the kernel object.\<close>

record 'x kernel_call =
  arg_X :: 'x
  arg_Y :: "'x option"
  arg_grad :: "bool \<times> bool"

text \<open>The collaborators are not code of this module and are parameters of the model: the
  constructor \<open>models.Kernel(rep, name='GAP', zeta=soap_power, target_type='Structure',
  kernel_type='Sparse')\<close>, the evaluation of a kernel object, and \<open>np.save\<close> on a file
  system \<open>'fs\<close>.  Each may raise.\<close>

record ('rep, 'k, 'x, 'fs) collaborators =
  Kernel :: "'rep \<Rightarrow> int \<Rightarrow> py_error + 'k"
  evaluate :: "'k \<Rightarrow> 'x kernel_call \<Rightarrow> py_error + ndarray"
  np_save :: "string \<Rightarrow> ndarray \<Rightarrow> 'fs \<Rightarrow> py_error + 'fs"

text \<open>The state a call runs in: the kernel evaluations made so far, in order, and the file
  system.\<close>

record ('x, 'fs) world =
  calls :: "'x kernel_call list"
  files :: 'fs

type_synonym ('a, 'x, 'fs) io = "('x, 'fs) world \<Rightarrow> (py_error + 'a) \<times> ('x, 'fs) world"

definition bind_io :: "('a, 'x, 'fs) io \<Rightarrow> ('a \<Rightarrow> ('b, 'x, 'fs) io) \<Rightarrow> ('b, 'x, 'fs) io" where
  "bind_io m f w = (case m w of (Inl e, w') \<Rightarrow> (Inl e, w') | (Inr x, w') \<Rightarrow> f x w')"

definition return_io :: "'a \<Rightarrow> ('a, 'x, 'fs) io" where
  "return_io x w = (Inr x, w)"

definition construct_kernel ::
  "('rep, 'k, 'x, 'fs) collaborators \<Rightarrow> 'rep \<Rightarrow> int \<Rightarrow> ('k, 'x, 'fs) io" where
  "construct_kernel env rep zeta w = (Kernel env rep zeta, w)"

definition call_kernel ::
  "('rep, 'k, 'x, 'fs) collaborators \<Rightarrow> 'k \<Rightarrow> 'x kernel_call \<Rightarrow> (ndarray, 'x, 'fs) io" where
  "call_kernel env kernel_obj c w = (evaluate env kernel_obj c, w\<lparr>calls := calls w @ [c]\<rparr>)"

definition save ::
  "('rep, 'k, 'x, 'fs) collaborators \<Rightarrow> string \<Rightarrow> ndarray \<Rightarrow> (unit, 'x, 'fs) io" where
  "save env path a w =
     (case np_save env path a (files w) of
        Inl e \<Rightarrow> (Inl e, w)
      | Inr fs \<Rightarrow> (Inr (), w\<lparr>files := fs\<rparr>))"

text \<open>\<open>os.path.join(WORKDIR, name)\<close> for a relative \<open>name\<close>.\<close>

definition os_path_join :: "string \<Rightarrow> string \<Rightarrow> string" where
  "os_path_join a p =
     (if p \<noteq> [] \<and> hd p = CHR ''/'' then p
      else if a = [] \<or> last a = CHR ''/'' then a @ p
      else a @ ''/'' @ p)"

text \<open>The returned tuple: three components, or four with the gradient kernel last.\<close>

datatype 'k kernels =
    Tuple3 'k ndarray ndarray
  | Tuple4 'k ndarray ndarray ndarray

fun sparse_kernel_of :: "'k kernels \<Rightarrow> ndarray" where
  "sparse_kernel_of (Tuple3 k kmm knm) = kmm"
| "sparse_kernel_of (Tuple4 k kmm knm kgrad) = kmm"

fun gradient_kernel_of :: "'k kernels \<Rightarrow> ndarray option" where
  "gradient_kernel_of (Tuple3 k kmm knm) = None"
| "gradient_kernel_of (Tuple4 k kmm knm kgrad) = Some kgrad"

definition compute_kernels ::
  "('rep, 'k, 'x, 'fs) collaborators \<Rightarrow> string \<Rightarrow> 'rep \<Rightarrow> 'x \<Rightarrow> 'x \<Rightarrow> int \<Rightarrow> bool \<Rightarrow> bool \<Rightarrow>
   ('k kernels, 'x, 'fs) io" where
  "compute_kernels env WORKDIR rep soaps sparse_points soap_power do_gradients
       compute_sparse_kernel =
     bind_io (construct_kernel env rep soap_power) (\<lambda>kernel_obj.
     bind_io
       (if compute_sparse_kernel then
          bind_io (call_kernel env kernel_obj
                     \<lparr>arg_X = sparse_points, arg_Y = None, arg_grad = (False, False)\<rparr>)
            (\<lambda>kernel_sparse.
          bind_io (save env (os_path_join WORKDIR ''K_MM'') kernel_sparse) (\<lambda>_.
          return_io kernel_sparse))
        else return_io np_array_empty) (\<lambda>kernel_sparse.
     bind_io (call_kernel env kernel_obj
                \<lparr>arg_X = soaps, arg_Y = Some sparse_points, arg_grad = (False, False)\<rparr>)
       (\<lambda>kernel_sparse_full.
     bind_io (save env (os_path_join WORKDIR ''K_NM_E'') kernel_sparse_full) (\<lambda>_.
     if do_gradients then
       bind_io (call_kernel env kernel_obj
                  \<lparr>arg_X = soaps, arg_Y = Some sparse_points, arg_grad = (True, False)\<rparr>)
         (\<lambda>kernel_sparse_full_grads.
       bind_io (save env (os_path_join WORKDIR ''K_NM_F'') kernel_sparse_full_grads) (\<lambda>_.
       return_io (Tuple4 kernel_obj kernel_sparse kernel_sparse_full kernel_sparse_full_grads)))
     else return_io (Tuple3 kernel_obj kernel_sparse kernel_sparse_full)))))"

text \<open>The collaborators of a run that raise nothing.\<close>

definition collaborators_succeed :: "('rep, 'k, 'x, 'fs) collaborators \<Rightarrow> bool" where
  "collaborators_succeed env \<longleftrightarrow>
     (\<forall>rep zeta. \<exists>k. Kernel env rep zeta = Inr k)
     \<and> (\<forall>k c. \<exists>a. evaluate env k c = Inr a)
     \<and> (\<forall>path a fs. \<exists>fs'. np_save env path a fs = Inr fs')"

text \<open>Collaborators for running the model on an example: every kernel is the 1 x 1 array
  [[1]], and the file system is the list of the arrays saved, with their paths.\<close>

definition example_collaborators ::
  "(unit, unit, nat, (string \<times> ndarray) list) collaborators" where
  "example_collaborators =
     \<lparr>Kernel = (\<lambda>rep zeta. Inr ()),
      evaluate = (\<lambda>k c. Inr (Array2 \<lparr>ncols = 1, rows = [[1]]\<rparr>)),
      np_save = (\<lambda>path a fs. Inr (fs @ [(path, a)]))\<rparr>"

subsection \<open>\<open>fit_gap_simple\<close> on a store\<close>

text \<open>To speak of what a call leaves in its arguments, the arrays and structures live in a
  store and are passed by reference; an address is an index into the store.  Every numpy
  operation of \<open>fit_gap_simple\<close> reads its operands and puts its result into a new
  array; views (\<open>K_NM.T\<close>, \<open>x[:, np.newaxis]\<close>) read the array they are views of.\<close>

datatype obj = ObjAtoms atoms | ObjVec vec | ObjMat matrix | ObjForces forces

type_synonym ref = nat

type_synonym heap = "obj list"

type_synonym 'a heap_op = "heap \<Rightarrow> (py_error + 'a) \<times> heap"

definition return_h :: "'a \<Rightarrow> 'a heap_op" where
  "return_h x h = (Inr x, h)"

definition lift_h :: "py_error + 'a \<Rightarrow> 'a heap_op" where
  "lift_h r h = (r, h)"

definition bind_h :: "'a heap_op \<Rightarrow> ('a \<Rightarrow> 'b heap_op) \<Rightarrow> 'b heap_op" where
  "bind_h m f h = (case m h of (Inl e, h') \<Rightarrow> (Inl e, h') | (Inr x, h') \<Rightarrow> f x h')"

primrec map_h :: "('a \<Rightarrow> 'b heap_op) \<Rightarrow> 'a list \<Rightarrow> 'b list heap_op" where
  "map_h f [] = return_h []"
| "map_h f (x # xs) = bind_h (f x) (\<lambda>y. bind_h (map_h f xs) (\<lambda>ys. return_h (y # ys)))"

definition alloc :: "obj \<Rightarrow> ref heap_op" where
  "alloc v h = (Inr (length h), h @ [v])"

text \<open>Reading an object of the wrong kind is a TypeError.\<close>

definition read_atoms :: "ref \<Rightarrow> atoms heap_op" where
  "read_atoms r h =
     (if r < length h then (case h ! r of ObjAtoms a \<Rightarrow> (Inr a, h) | _ \<Rightarrow> (Inl TypeError, h))
      else (Inl TypeError, h))"

definition read_vec :: "ref \<Rightarrow> vec heap_op" where
  "read_vec r h =
     (if r < length h then (case h ! r of ObjVec v \<Rightarrow> (Inr v, h) | _ \<Rightarrow> (Inl TypeError, h))
      else (Inl TypeError, h))"

definition read_mat :: "ref \<Rightarrow> matrix heap_op" where
  "read_mat r h =
     (if r < length h then (case h ! r of ObjMat A \<Rightarrow> (Inr A, h) | _ \<Rightarrow> (Inl TypeError, h))
      else (Inl TypeError, h))"

definition read_forces :: "ref \<Rightarrow> forces heap_op" where
  "read_forces r h =
     (if r < length h then (case h ! r of ObjForces f \<Rightarrow> (Inr f, h) | _ \<Rightarrow> (Inl TypeError, h))
      else (Inl TypeError, h))"

definition new_vec :: "py_error + vec \<Rightarrow> ref heap_op" where
  "new_vec r = bind_h (lift_h r) (\<lambda>v. alloc (ObjVec v))"

definition new_mat :: "py_error + matrix \<Rightarrow> ref heap_op" where
  "new_mat r = bind_h (lift_h r) (\<lambda>A. alloc (ObjMat A))"

text \<open>The least-squares routine gets the addresses of the matrix and of the right-hand
  side.  What it does to these two arrays is its own affair: the model lets it leave
  anything in them (numpy's routine leaves them as they were).\<close>

type_synonym lstsq_inplace =
  "matrix \<Rightarrow> vec \<Rightarrow> real option \<Rightarrow> (py_error + vec) \<times> matrix \<times> vec"

definition lstsq_h :: "lstsq_inplace \<Rightarrow> ref \<Rightarrow> ref \<Rightarrow> real option \<Rightarrow> ref heap_op" where
  "lstsq_h lstsq K b rcond =
     bind_h (read_mat K) (\<lambda>A.
     bind_h (read_vec b) (\<lambda>y h.
       case lstsq A y rcond of
         (res, A', y') \<Rightarrow> new_vec res (h[K := ObjMat A', b := ObjVec y'])))"

definition fit_gap_simple_h ::
  "lstsq_inplace \<Rightarrow> ref list \<Rightarrow> ref \<Rightarrow> ref \<Rightarrow> ref \<Rightarrow> real \<Rightarrow> baseline_table \<Rightarrow>
   ref option \<Rightarrow> ref option \<Rightarrow> real option \<Rightarrow> real option \<Rightarrow> ref heap_op" where
  "fit_gap_simple_h lstsq geoms kernel_sparse energies kernel_energies_sparse
       energy_regularizer_peratom energy_atom_contributions
       forces kernel_gradients_sparse force_regularizer rcond =
     bind_h (map_h (\<lambda>geom. bind_h (read_atoms geom) (\<lambda>a.
               return_h (get_energy_baseline a energy_atom_contributions))) geoms) (\<lambda>e0s.
     bind_h (alloc (ObjVec e0s)) (\<lambda>e0_all.
     bind_h (read_vec energies) (\<lambda>es.
     bind_h (read_vec e0_all) (\<lambda>e0.
     bind_h (new_vec (np_binop_vec (-) es e0)) (\<lambda>energies_shifted.
     bind_h (map_h (\<lambda>geom. bind_h (read_atoms geom) (\<lambda>a. return_h (len_atoms a))) geoms) (\<lambda>ns.
     bind_h (alloc (ObjVec (map real ns))) (\<lambda>natoms_list.
     bind_h (read_vec natoms_list) (\<lambda>na.
     bind_h (alloc (ObjVec (map (\<lambda>n. energy_regularizer_peratom * sqrt n) na)))
       (\<lambda>energy_regularizer.
     bind_h (read_mat kernel_energies_sparse) (\<lambda>ke.
     bind_h (read_vec energy_regularizer) (\<lambda>er.
     bind_h (new_mat (np_div_column ke er)) (\<lambda>kernel_energies_norm.
     bind_h
       (case forces of
          Some forces_ref \<Rightarrow>
            bind_h (read_forces forces_ref) (\<lambda>f.
            bind_h (alloc (ObjForces (np_neg_forces f))) (\<lambda>gradients.
            bind_h (case kernel_gradients_sparse of
                      Some kg_ref \<Rightarrow> bind_h (read_mat kg_ref) (\<lambda>kg. return_h (Some kg))
                    | None \<Rightarrow> return_h None) (\<lambda>kg.
            bind_h (new_mat (div_gradients kg force_regularizer)) (\<lambda>kernel_gradients_norm.
            bind_h (read_mat kernel_energies_norm) (\<lambda>ken.
            bind_h (read_mat kernel_gradients_norm) (\<lambda>kgn.
            bind_h (new_mat (np_vstack ken kgn)) (\<lambda>K_NM.
            bind_h (read_vec energies_shifted) (\<lambda>esh.
            bind_h (new_vec (np_binop_vec (/) esh er)) (\<lambda>y_energies.
            bind_h (read_forces gradients) (\<lambda>g.
            bind_h (alloc (ObjVec (flatten g))) (\<lambda>flat.
            bind_h (read_vec flat) (\<lambda>fl.
            bind_h (new_vec (div_targets fl force_regularizer)) (\<lambda>y_gradients.
            bind_h (read_vec y_energies) (\<lambda>ye.
            bind_h (read_vec y_gradients) (\<lambda>yg.
            bind_h (alloc (ObjVec (np_concatenate ye yg))) (\<lambda>Y.
            return_h (K_NM, Y)))))))))))))))))
        | None \<Rightarrow>
            bind_h (read_vec energies_shifted) (\<lambda>esh.
            bind_h (new_vec (np_binop_vec (/) esh er)) (\<lambda>Y.
            return_h (kernel_energies_norm, Y))))
       (\<lambda>(K_NM, Y).
     bind_h (read_mat K_NM) (\<lambda>knm.
     bind_h (new_mat (np_matmul (np_transpose knm) knm)) (\<lambda>KtK.
     bind_h (read_mat kernel_sparse) (\<lambda>kmm.
     bind_h (read_mat KtK) (\<lambda>ktk.
     bind_h (new_mat (np_add_matrix kmm ktk)) (\<lambda>K.
     bind_h (read_vec Y) (\<lambda>y.
     bind_h (new_vec (np_matvec (np_transpose knm) y)) (\<lambda>b.
     lstsq_h lstsq K b rcond))))))))))))))))))))"

text \<open>A heap operation keeps the store \<open>h0\<close> when, started in any store that extends
  \<open>h0\<close>, it ends in one, and what it returns satisfies \<open>Q\<close>.\<close>

definition keeps :: "heap \<Rightarrow> ('a \<Rightarrow> bool) \<Rightarrow> 'a heap_op \<Rightarrow> bool" where
  "keeps h0 Q m \<longleftrightarrow>
     (\<forall>h res h'. prefix h0 h \<and> m h = (res, h') \<longrightarrow>
        prefix h0 h' \<and> (\<forall>x. res = Inr x \<longrightarrow> Q x))"

text \<open>The solution an in-place routine returns, leaving aside what it does to its
  arguments.\<close>

definition result_of :: "lstsq_inplace \<Rightarrow> lstsq_solver" where
  "result_of lstsq A b rcond = fst (lstsq A b rcond)"

subsection \<open>Properties of the energy baseline\<close>

lemma baseline_loop_acc:
  "baseline_loop geom tbl e0 =
     e0 + (\<Sum>(s, v)\<leftarrow>tbl. v * real (np_sum_eq (get_atomic_numbers geom) s))"
  by (induction tbl arbitrary: e0) (auto simp: algebra_simps)

lemma baseline_as_sum:
  "get_energy_baseline geom tbl =
     (\<Sum>(s, v)\<leftarrow>tbl. v * real (np_sum_eq (numbers geom) s))"
  by (simp add: get_energy_baseline_def baseline_loop_acc get_atomic_numbers_def)

lemma table_row_sum:
  "distinct (map fst tbl) \<Longrightarrow>
     (\<Sum>(s, v)\<leftarrow>tbl. if z = s then v else 0) = table_value tbl z"
proof (induction tbl)
  case Nil
  then show ?case by (simp add: table_value_def)
next
  case (Cons p tbl)
  obtain s v where p: "p = (s, v)" by (cases p)
  from Cons.prems p have notin: "s \<notin> fst ` set tbl" and d: "distinct (map fst tbl)"
    by auto
  show ?case
  proof (cases "z = s")
    case True
    with notin have "map_of tbl z = None" by (simp add: map_of_eq_None_iff)
    then have "table_value tbl z = 0" by (simp add: table_value_def)
    with Cons.IH[OF d] True p show ?thesis by (simp add: table_value_def)
  next
    case False
    with Cons.IH[OF d] p show ?thesis by (simp add: table_value_def)
  qed
qed

lemma table_sum_Cons:
  "(\<Sum>(s, v)\<leftarrow>tbl. v * real (np_sum_eq (z # nums) s)) =
     (\<Sum>(s, v)\<leftarrow>tbl. if z = s then v else 0)
     + (\<Sum>(s, v)\<leftarrow>tbl. v * real (np_sum_eq nums s))"
  by (induction tbl) (auto simp: np_sum_eq_def algebra_simps)

lemma table_sum_atoms:
  "distinct (map fst tbl) \<Longrightarrow>
     (\<Sum>(s, v)\<leftarrow>tbl. v * real (np_sum_eq nums s)) = (\<Sum>z\<leftarrow>nums. table_value tbl z)"
proof (induction nums)
  case Nil
  show ?case by (induction tbl) (auto simp: np_sum_eq_def)
next
  case (Cons z nums)
  then show ?case by (simp add: table_sum_Cons table_row_sum)
qed

lemma baseline_is_spec:
  "distinct (map fst tbl) \<Longrightarrow> get_energy_baseline geom tbl = baseline_spec geom tbl"
  by (simp add: baseline_as_sum baseline_spec_def table_sum_atoms)

lemma unsupported_row_sum:
  "z \<notin> fst ` set tbl \<Longrightarrow> (\<Sum>(s, v)\<leftarrow>tbl. if z = s then v else 0) = (0::real)"
  by (induction tbl) auto

lemma np_sum_eq_mset: "np_sum_eq nums s = count (mset nums) s"
  by (induction nums) (auto simp: np_sum_eq_def)

text \<open>
  C4.  For a baseline table (a dict, so with each species once), the baseline of a
  structure is the sum over its atoms of the table's value for the atom's species, an
  atom whose species the table lacks counting zero.  The function has no failing branch:
  an atom of a species absent from the table leaves the baseline as it was.
\<close>

theorem get_energy_baseline_sum_over_atoms:
  "(distinct (map fst tbl) \<longrightarrow> get_energy_baseline geom tbl = baseline_spec geom tbl)
   \<and> (z \<notin> fst ` set tbl \<longrightarrow>
        get_energy_baseline \<lparr>numbers = z # numbers geom\<rparr> tbl = get_energy_baseline geom tbl)"
proof (intro conjI impI)
  assume "distinct (map fst tbl)"
  then show "get_energy_baseline geom tbl = baseline_spec geom tbl"
    by (rule baseline_is_spec)
next
  assume "z \<notin> fst ` set tbl"
  then show "get_energy_baseline \<lparr>numbers = z # numbers geom\<rparr> tbl = get_energy_baseline geom tbl"
    by (simp add: baseline_as_sum table_sum_Cons unsupported_row_sum)
qed

theorem get_energy_baseline_sum_over_atoms_witness:
  "distinct (map fst [(1::int, - 13.6::real), (8, - 2041)])
   \<and> (6::int) \<notin> fst ` set [(1::int, - 13.6::real), (8, - 2041)]
   \<and> get_energy_baseline \<lparr>numbers = [6, 8, 1, 1]\<rparr> [(1, - 13.6), (8, - 2041)] = - 2068.2
   \<and> get_energy_baseline \<lparr>numbers = [8, 1, 1]\<rparr> [(1, - 13.6), (8, - 2041)] = - 2068.2"
  using get_energy_baseline_sum_over_atoms
    [of "[(1::int, - 13.6::real), (8, - 2041)]" "\<lparr>numbers = [8, 1, 1]\<rparr>" 6]
  by (simp add: baseline_spec_def table_value_def)

text \<open>
  C7.  A table whose values are all zero gives every structure the baseline 0; a
  structure of \<open>n\<close> atoms of one species, whose table value is \<open>b\<close>, has the baseline
  \<open>b * n\<close>, so twice the atoms give twice the baseline.
\<close>

theorem get_energy_baseline_linear:
  "((\<forall>(s, v)\<in>set tbl. v = 0) \<longrightarrow> get_energy_baseline geom tbl = 0)
   \<and> (distinct (map fst tbl) \<and> map_of tbl z = Some b \<longrightarrow>
        get_energy_baseline \<lparr>numbers = replicate n z\<rparr> tbl = b * real n
        \<and> get_energy_baseline \<lparr>numbers = replicate (2 * n) z\<rparr> tbl
            = 2 * get_energy_baseline \<lparr>numbers = replicate n z\<rparr> tbl)"
proof -
  have zero: "get_energy_baseline geom tbl = 0" if "\<forall>(s, v)\<in>set tbl. v = 0"
    using that unfolding baseline_as_sum by (induction tbl) auto
  have single: "get_energy_baseline \<lparr>numbers = replicate m z\<rparr> tbl = b * real m"
    if "distinct (map fst tbl)" "map_of tbl z = Some b" for m
    using that by (simp add: baseline_is_spec baseline_spec_def table_value_def sum_list_replicate)
  show ?thesis
  proof (intro conjI impI)
    assume "\<forall>(s, v)\<in>set tbl. v = 0"
    then show "get_energy_baseline geom tbl = 0" by (rule zero)
  next
    assume a: "distinct (map fst tbl) \<and> map_of tbl z = Some b"
    then show "get_energy_baseline \<lparr>numbers = replicate n z\<rparr> tbl = b * real n"
      by (simp add: single)
    from a show "get_energy_baseline \<lparr>numbers = replicate (2 * n) z\<rparr> tbl
        = 2 * get_energy_baseline \<lparr>numbers = replicate n z\<rparr> tbl"
      by (simp add: single)
  qed
qed

theorem get_energy_baseline_linear_witness:
  "list_all (\<lambda>(s, v). v = 0) [(1::int, 0::real), (8, 0)]
   \<and> get_energy_baseline \<lparr>numbers = [8, 1, 1]\<rparr> [(1, 0), (8, 0)] = 0
   \<and> distinct (map fst [(1::int, - 13.6::real), (8, - 2041)])
   \<and> map_of [(1::int, - 13.6::real), (8, - 2041)] 8 = Some (- 2041)
   \<and> get_energy_baseline \<lparr>numbers = replicate 3 8\<rparr> [(1, - 13.6), (8, - 2041)] = - 6123
   \<and> get_energy_baseline \<lparr>numbers = replicate (2 * 3) 8\<rparr> [(1, - 13.6), (8, - 2041)] = - 12246"
  using get_energy_baseline_linear [of "[(1::int, 0::real), (8, 0)]" "\<lparr>numbers = [8, 1, 1]\<rparr>"]
    get_energy_baseline_linear [of "[(1::int, - 13.6::real), (8, - 2041)]" _ 8 "- 2041" 3]
  by simp

text \<open>
  C10.  The baseline reads a structure only through the number of atoms of each species:
  two structures whose atomic-number sequences are permutations of each other have the
  same baseline, for every table.
\<close>

theorem get_energy_baseline_permutation:
  "mset (numbers g1) = mset (numbers g2) \<Longrightarrow>
   get_energy_baseline g1 tbl = get_energy_baseline g2 tbl"
  by (simp add: baseline_as_sum np_sum_eq_mset)

theorem get_energy_baseline_permutation_witness:
  "mset (numbers \<lparr>numbers = [1, 8, 1]\<rparr>) = mset (numbers \<lparr>numbers = [8, 1, 1]\<rparr>)
   \<and> get_energy_baseline \<lparr>numbers = [1, 8, 1]\<rparr> [(8, - 2041), (1, - 13.6)]
       = get_energy_baseline \<lparr>numbers = [8, 1, 1]\<rparr> [(8, - 2041), (1, - 13.6)]"
  using get_energy_baseline_permutation
    [of "\<lparr>numbers = [1, 8, 1]\<rparr>" "\<lparr>numbers = [8, 1, 1]\<rparr>" "[(8, - 2041), (1, - 13.6)]"]
  by simp

subsection \<open>The design matrix, the targets and the normal equations\<close>

lemma broadcast_len_same [simp]: "broadcast_len n n = Some n"
  by (simp add: broadcast_len_def)

lemma stretch_same [simp]: "length xs = n \<Longrightarrow> stretch n xs = xs"
  by (simp add: stretch_def)

lemma np_binop_vec_same:
  "length xs = length ys \<Longrightarrow> np_binop_vec f xs ys = Inr (map2 f xs ys)"
  by (simp add: np_binop_vec_def)

lemma np_div_column_same:
  "nrows A = length c \<Longrightarrow>
   np_div_column A c =
     Inr \<lparr>ncols = ncols A, rows = map2 (\<lambda>row d. map (\<lambda>x. x / d) row) (rows A) c\<rparr>"
  by (simp add: np_div_column_def nrows_def)

lemma energy_regularizer_eq:
  "map (\<lambda>n. ereg * sqrt (real n)) (map len_atoms geoms) = map (energy_scale ereg) geoms"
  by (simp add: energy_scale_def)

lemma energy_rows_eq:
  assumes "nrows K_E = length geoms"
  shows "map2 (\<lambda>row d. map (\<lambda>x. x / d) row) (rows K_E) (map (energy_scale ereg) geoms)
         = spec_energy_rows ereg geoms K_E"
  using assms
  by (intro nth_equalityI) (simp_all add: spec_energy_rows_def nrows_def)

lemma energy_targets_eq:
  assumes "length energies = length geoms"
  shows "map2 (/) (map2 (-) energies (map (\<lambda>geom. get_energy_baseline geom tbl) geoms))
           (map (energy_scale ereg) geoms)
         = spec_energy_targets ereg tbl geoms energies"
  using assms
  by (intro nth_equalityI) (simp_all add: spec_energy_targets_def)

lemma flatten_neg: "flatten (np_neg_forces f) = map (\<lambda>x. - x) (flatten f)"
proof -
  have "(*) (- 1 :: real) = uminus" by (rule ext) simp
  then show ?thesis by (cases f) (simp_all add: map_concat comp_def)
qed

lemma gradient_targets_eq:
  "np_div_scalar_vec (flatten (np_neg_forces f)) fr = spec_gradient_targets fr f"
  by (simp add: np_div_scalar_vec_def flatten_neg spec_gradient_targets_def)

lemma assemble_design_energies:
  assumes "length energies = length geoms" "nrows K_E = length geoms"
  shows "assemble_design geoms energies K_E ereg tbl None kgs freg =
           Inr (\<lparr>ncols = ncols K_E, rows = spec_energy_rows ereg geoms K_E\<rparr>,
                spec_energy_targets ereg tbl geoms energies)"
  using assms
  by (simp add: assemble_design_def Let_def bind_err_def np_binop_vec_same np_div_column_same
      energy_regularizer_eq energy_rows_eq energy_targets_eq del: map_map)

lemma assemble_design_forces:
  assumes "length energies = length geoms" "nrows K_E = length geoms" "ncols K_G = ncols K_E"
  shows "assemble_design geoms energies K_E ereg tbl (Some f) (Some K_G) (Some fr) =
           Inr (\<lparr>ncols = ncols K_E,
                 rows = spec_energy_rows ereg geoms K_E @ spec_gradient_rows fr K_G\<rparr>,
                spec_energy_targets ereg tbl geoms energies @ spec_gradient_targets fr f)"
  using assms
  by (simp add: assemble_design_def Let_def bind_err_def np_binop_vec_same np_div_column_same
      energy_regularizer_eq energy_rows_eq energy_targets_eq div_gradients_def div_targets_def np_vstack_def
      np_div_scalar_def gradient_targets_eq np_concatenate_def
      spec_gradient_rows_def del: map_map)

lemma column_as_index: "column A j = map (\<lambda>k. entry A k j) [0..<nrows A]"
  by (intro nth_equalityI) (simp_all add: column_def entry_def nrows_def)

lemma map2_same_list: "map2 f (map g xs) (map h xs) = map (\<lambda>x. f (g x) (h x)) xs"
  by (induction xs) simp_all

lemma dot_columns:
  "dot (column A i) (column A j) = (\<Sum>k\<leftarrow>[0..<nrows A]. entry A k i * entry A k j)"
  by (simp only: dot_def column_as_index map2_same_list)

lemma dot_column_vec:
  assumes "length y = nrows A"
  shows "dot (column A i) y = (\<Sum>k\<leftarrow>[0..<nrows A]. entry A k i * y ! k)"
proof -
  have "y = map (\<lambda>k. y ! k) [0..<nrows A]"
    using assms by (intro nth_equalityI) simp_all
  then have "dot (column A i) y = dot (column A i) (map (\<lambda>k. y ! k) [0..<nrows A])"
    by simp
  also have "\<dots> = (\<Sum>k\<leftarrow>[0..<nrows A]. entry A k i * y ! k)"
    by (simp only: dot_def column_as_index map2_same_list)
  finally show ?thesis .
qed

lemma gram_matrix:
  "np_matmul (np_transpose A) A =
     Inr \<lparr>ncols = ncols A,
          rows = map (\<lambda>i. map (\<lambda>j. \<Sum>k\<leftarrow>[0..<nrows A]. entry A k i * entry A k j)
                     [0..<ncols A]) [0..<ncols A]\<rparr>"
  by (simp add: np_matmul_def np_transpose_def dot_columns comp_def)

lemma transpose_matvec:
  assumes "length y = nrows A"
  shows "np_matvec (np_transpose A) y = Inr (spec_normal_rhs A y)"
  using assms by (simp add: np_matvec_def np_transpose_def dot_column_vec spec_normal_rhs_def comp_def)

lemma add_square:
  assumes "wf_matrix K" "nrows K = m" "ncols K = m"
  shows "np_add_matrix K \<lparr>ncols = m, rows = map (\<lambda>i. map (g i) [0..<m]) [0..<m]\<rparr> =
           Inr \<lparr>ncols = m, rows = map (\<lambda>i. map (\<lambda>j. entry K i j + g i j) [0..<m]) [0..<m]\<rparr>"
proof -
  have len: "\<And>i. i < m \<Longrightarrow> length (rows K ! i) = m"
    using assms by (simp add: wf_matrix_def nrows_def list_all_length)
  have "map2 (\<lambda>ra rb. map2 (+) (stretch m ra) (stretch m rb)) (rows K)
          (map (\<lambda>i. map (g i) [0..<m]) [0..<m])
        = map (\<lambda>i. map (\<lambda>j. entry K i j + g i j) [0..<m]) [0..<m]"
    using assms(2) len
    by (intro nth_equalityI) (simp_all add: nrows_def entry_def)
  then show ?thesis
    using assms by (simp add: np_add_matrix_def nrows_def)
qed

lemma solve_normal_equations_shaped:
  assumes "wf_matrix K_MM" "nrows K_MM = ncols K_NM" "ncols K_MM = ncols K_NM"
    and "length Y = nrows K_NM"
  shows "solve_normal_equations lstsq K_MM K_NM Y rcond =
           lstsq (spec_normal_matrix K_MM K_NM) (spec_normal_rhs K_NM Y) rcond"
  using assms
  by (simp add: solve_normal_equations_def bind_err_def gram_matrix add_square
      transpose_matvec spec_normal_matrix_def)

lemma baseline_zero_table:
  "\<forall>(s, v)\<in>set tbl. v = 0 \<Longrightarrow> get_energy_baseline geom tbl = 0"
  unfolding baseline_as_sum by (induction tbl) auto

lemma assemble_design_ncols:
  assumes "assemble_design geoms energies K_E ereg tbl forces kgs freg = Inr (K_NM, Y)"
  shows "ncols K_NM = ncols K_E"
  using assms
  by (auto simp: assemble_design_def Let_def bind_err_def np_div_column_def np_vstack_def
      split: sum.splits option.splits if_splits)

lemma fit_gap_simple_unfold:
  assumes "assemble_design geoms energies K_E ereg tbl forces kgs freg = Inr (K_NM, Y)"
  shows "fit_gap_simple lstsq geoms K_MM energies K_E ereg tbl forces kgs freg rcond =
           solve_normal_equations lstsq K_MM K_NM Y rcond"
  using assms by (simp add: fit_gap_simple_def bind_err_def)

lemma length_one: "length w = Suc 0 \<longleftrightarrow> (\<exists>x. w = [x])"
  by (cases w) auto

lemma residual_1x1:
  "residual \<lparr>ncols = n, rows = [[a]]\<rparr> [y] [x] = (a * x - y)\<^sup>2"
  by (simp add: residual_def nrows_def dot_def)

lemma square_minimal:
  fixes a x y :: real
  shows "(\<forall>x'. (a * x - y)\<^sup>2 \<le> (a * x' - y)\<^sup>2) \<longleftrightarrow> (a = 0 \<or> a * x = y)"
proof
  assume h: "\<forall>x'. (a * x - y)\<^sup>2 \<le> (a * x' - y)\<^sup>2"
  show "a = 0 \<or> a * x = y"
  proof (rule disjCI)
    assume "a * x \<noteq> y"
    show "a = 0"
    proof (rule ccontr)
      assume "a \<noteq> 0"
      with h[rule_format, of "y / a"] have "(a * x - y)\<^sup>2 \<le> 0" by simp
      then have "a * x - y = 0" by simp
      with \<open>a * x \<noteq> y\<close> show False by simp
    qed
  qed
next
  assume "a = 0 \<or> a * x = y"
  then show "\<forall>x'. (a * x - y)\<^sup>2 \<le> (a * x' - y)\<^sup>2" by auto
qed

lemma least_squares_1x1:
  "least_squares \<lparr>ncols = Suc 0, rows = [[a]]\<rparr> [y] w \<longleftrightarrow>
     (\<exists>x. w = [x] \<and> (a = 0 \<or> a * x = y))"
proof
  assume l: "least_squares \<lparr>ncols = Suc 0, rows = [[a]]\<rparr> [y] w"
  then obtain x where w: "w = [x]"
    by (auto simp: least_squares_def length_one)
  have "(a * x - y)\<^sup>2 \<le> (a * x' - y)\<^sup>2" for x'
    using l[unfolded least_squares_def w, THEN conjunct2, rule_format, of "[x']"]
    by (simp add: residual_1x1)
  then have "\<forall>x'. (a * x - y)\<^sup>2 \<le> (a * x' - y)\<^sup>2" by blast
  then have "a = 0 \<or> a * x = y" by (simp only: square_minimal)
  with w show "\<exists>x. w = [x] \<and> (a = 0 \<or> a * x = y)" by blast
next
  assume "\<exists>x. w = [x] \<and> (a = 0 \<or> a * x = y)"
  then obtain x where w: "w = [x]" and "a = 0 \<or> a * x = y" by blast
  then have "\<forall>x'. (a * x - y)\<^sup>2 \<le> (a * x' - y)\<^sup>2" by (simp only: square_minimal)
  then show "least_squares \<lparr>ncols = Suc 0, rows = [[a]]\<rparr> [y] w"
    unfolding least_squares_def w by (auto simp: length_one residual_1x1)
qed

lemma lstsq_1x1_contract:
  assumes "lstsq_1x1 A b rcond = Inr w"
  shows "min_norm_least_squares A b w"
proof -
  from assms obtain a y where A: "A = \<lparr>ncols = Suc 0, rows = [[a]]\<rparr>" and b: "b = [y]"
    and w: "w = [if a = 0 then 0 else y / a]"
    by (cases A) (auto simp: lstsq_1x1_def split: list.splits if_splits)
  have 1: "least_squares A b w"
    unfolding A b w by (simp add: least_squares_1x1)
  have 2: "dot w w \<le> dot w' w'" if "least_squares A b w'" for w'
  proof -
    from that obtain x where w': "w' = [x]" and x: "a = 0 \<or> a * x = y"
      unfolding A b least_squares_1x1 by blast
    show ?thesis
    proof (cases "a = 0")
      case True
      then show ?thesis by (simp add: w w' dot_def)
    next
      case False
      with x have "x = y / a" by (auto simp: field_simps)
      with False show ?thesis by (simp add: w w' dot_def)
    qed
  qed
  show ?thesis
    unfolding min_norm_least_squares_def using 1 2 by blast
qed

lemma lstsq_1x1_eval:
  "lstsq_1x1 \<lparr>ncols = Suc 0, rows = [[a]]\<rparr> [y] rcond = Inr [if a = 0 then 0 else y / a]"
  by (simp add: lstsq_1x1_def)

text \<open>
  C1.  With one energy and one row of the energy kernel per structure, the design matrix
  and the targets that \<open>fit_gap_simple\<close> hands to the normal equations are: for
  structure \<open>i\<close>, the row \<open>K_E[i,:]\<close> and the target
  \<open>energies[i] - baseline(geoms[i])\<close>, both divided by
  \<open>ereg * sqrt(len(geoms[i]))\<close>; and, when forces are given (with a gradient kernel
  of the same column count and a force regularizer), below them the rows of the gradient
  kernel and the flattened negated forces, both divided by the force regularizer.
\<close>

theorem fit_gap_simple_design_assembly:
  assumes "length energies = length geoms" and "nrows K_E = length geoms"
  shows "assemble_design geoms energies K_E ereg tbl None kgs freg =
           Inr (spec_K_NM ereg geoms K_E None, spec_Y ereg tbl geoms energies None)
       \<and> fit_gap_simple lstsq geoms K_MM energies K_E ereg tbl None kgs freg rcond =
           solve_normal_equations lstsq K_MM
             (spec_K_NM ereg geoms K_E None) (spec_Y ereg tbl geoms energies None) rcond
       \<and> (ncols K_G = ncols K_E \<longrightarrow>
            assemble_design geoms energies K_E ereg tbl (Some f) (Some K_G) (Some fr) =
              Inr (spec_K_NM ereg geoms K_E (Some (f, K_G, fr)),
                   spec_Y ereg tbl geoms energies (Some (f, K_G, fr)))
            \<and> fit_gap_simple lstsq geoms K_MM energies K_E ereg tbl
                 (Some f) (Some K_G) (Some fr) rcond =
                solve_normal_equations lstsq K_MM
                  (spec_K_NM ereg geoms K_E (Some (f, K_G, fr)))
                  (spec_Y ereg tbl geoms energies (Some (f, K_G, fr))) rcond)"
proof -
  have e: "assemble_design geoms energies K_E ereg tbl None kgs freg =
           Inr (spec_K_NM ereg geoms K_E None, spec_Y ereg tbl geoms energies None)"
    using assms by (simp add: assemble_design_energies spec_K_NM_def spec_Y_def)
  have g: "assemble_design geoms energies K_E ereg tbl (Some f) (Some K_G) (Some fr) =
              Inr (spec_K_NM ereg geoms K_E (Some (f, K_G, fr)),
                   spec_Y ereg tbl geoms energies (Some (f, K_G, fr)))"
    if "ncols K_G = ncols K_E"
    using assms that by (simp add: assemble_design_forces spec_K_NM_def spec_Y_def)
  show ?thesis
    using e g by (simp add: fit_gap_simple_unfold)
qed

theorem fit_gap_simple_design_assembly_witness:
  "assemble_design [\<lparr>numbers = [1, 1, 1, 1]\<rparr>] [10] \<lparr>ncols = 1, rows = [[2]]\<rparr> 1 [(1, 1)]
      None None None
     = Inr (\<lparr>ncols = 1, rows = [[1]]\<rparr>, [3])
   \<and> assemble_design [\<lparr>numbers = [1, 1, 1, 1]\<rparr>] [10] \<lparr>ncols = 1, rows = [[2]]\<rparr> 1 [(1, 1)]
      (Some (Forces2 [[2, 4, 6], [0, 0, 0], [- 2, 0, 2], [8, 8, 8]]))
      (Some \<lparr>ncols = 1, rows = [[2], [4], [6], [8], [10], [12], [14], [16], [18], [20], [22], [24]]\<rparr>)
      (Some 2)
     = Inr (\<lparr>ncols = 1,
              rows = [[1], [1], [2], [3], [4], [5], [6], [7], [8], [9], [10], [11], [12]]\<rparr>,
            [3, - 1, - 2, - 3, 0, 0, 0, 1, 0, - 1, - 4, - 4, - 4])"
  using fit_gap_simple_design_assembly
    [where energies = "[10]" and geoms = "[\<lparr>numbers = [1, 1, 1, 1]\<rparr>]"
       and K_E = "\<lparr>ncols = 1, rows = [[2]]\<rparr>" and ereg = 1 and tbl = "[(1, 1)]"
       and kgs = None and freg = None
       and f = "Forces2 [[2, 4, 6], [0, 0, 0], [- 2, 0, 2], [8, 8, 8]]"
       and K_G = "\<lparr>ncols = 1, rows = [[2], [4], [6], [8], [10], [12], [14], [16], [18], [20], [22], [24]]\<rparr>"
       and fr = 2]
  by (simp add: nrows_def spec_K_NM_def spec_Y_def spec_energy_rows_def spec_energy_targets_def
      spec_gradient_rows_def spec_gradient_targets_def energy_scale_def len_atoms_def
      get_energy_baseline_def get_atomic_numbers_def np_sum_eq_def)

text \<open>
  C2.  Whenever the design \<open>K_NM\<close> and the targets \<open>Y\<close> are assembled and conform
  (an M x M sparse kernel, one target per row of \<open>K_NM\<close>), \<open>fit_gap_simple\<close> returns
  exactly what the least-squares routine returns for the matrix
  \<open>K_MM + K_NM\<^sup>T K_NM\<close>, the right-hand side \<open>K_NM\<^sup>T Y\<close> and the given \<open>rcond\<close>:
  it adds no test of rank or conditioning and no failure of its own.  So if the routine
  returns least-squares solutions of least norm, that is what the fit returns.
\<close>

theorem fit_gap_simple_normal_equations:
  assumes "assemble_design geoms energies K_E ereg tbl forces kgs freg = Inr (K_NM, Y)"
    and "wf_matrix K_MM" and "nrows K_MM = ncols K_E" and "ncols K_MM = ncols K_E"
    and "length Y = nrows K_NM"
  shows "fit_gap_simple lstsq geoms K_MM energies K_E ereg tbl forces kgs freg rcond =
           lstsq (spec_normal_matrix K_MM K_NM) (spec_normal_rhs K_NM Y) rcond
       \<and> ((\<forall>A b w. lstsq A b rcond = Inr w \<longrightarrow> min_norm_least_squares A b w) \<longrightarrow>
          (\<forall>w. fit_gap_simple lstsq geoms K_MM energies K_E ereg tbl forces kgs freg rcond = Inr w
             \<longrightarrow> min_norm_least_squares
                   (spec_normal_matrix K_MM K_NM) (spec_normal_rhs K_NM Y) w))"
proof -
  have "ncols K_NM = ncols K_E"
    using assms(1) by (rule assemble_design_ncols)
  with assms have
    "fit_gap_simple lstsq geoms K_MM energies K_E ereg tbl forces kgs freg rcond =
       lstsq (spec_normal_matrix K_MM K_NM) (spec_normal_rhs K_NM Y) rcond"
    by (simp add: fit_gap_simple_unfold solve_normal_equations_shaped)
  then show ?thesis by simp
qed

theorem fit_gap_simple_normal_equations_witness:
  "fit_gap_simple lstsq_1x1 [\<lparr>numbers = [1]\<rparr>] \<lparr>ncols = 1, rows = [[0]]\<rparr> [3]
      \<lparr>ncols = 1, rows = [[0]]\<rparr> 1 [] None None None None = Inr [0]
   \<and> min_norm_least_squares \<lparr>ncols = 1, rows = [[0]]\<rparr> [0] [0]"
proof -
  let ?K = "\<lparr>ncols = Suc 0, rows = [[0]]\<rparr>"
  have a: "assemble_design [\<lparr>numbers = [1]\<rparr>] [3] ?K 1 [] None None None = Inr (?K, [3])"
    by (simp add: assemble_design_energies nrows_def spec_energy_rows_def
        spec_energy_targets_def energy_scale_def len_atoms_def get_energy_baseline_def)
  have c: "\<forall>A b w. lstsq_1x1 A b None = Inr w \<longrightarrow> min_norm_least_squares A b w"
    by (simp add: lstsq_1x1_contract)
  have m: "spec_normal_matrix ?K ?K = ?K"
    by (simp add: spec_normal_matrix_def nrows_def entry_def)
  have r: "spec_normal_rhs ?K [3] = [0]"
    by (simp add: spec_normal_rhs_def nrows_def entry_def)
  note t = fit_gap_simple_normal_equations [OF a, of ?K lstsq_1x1 None]
  have w: "wf_matrix ?K" "nrows ?K = ncols ?K" "length [3::real] = nrows ?K"
    by (simp_all add: wf_matrix_def nrows_def)
  from t w c m r show ?thesis
    by (simp add: lstsq_1x1_eval)
qed

text \<open>
  C3.  The end-to-end scenario: sparse kernel [[1]], energy kernel [[1],[2]], energies
  [3, 5], an all-zero baseline table, two structures of one atom, energy regularizer 1, no
  forces.  The fit hands the least-squares routine the 1 x 1 system
  \<open>(1 + 1*1 + 2*2) w = 1*3 + 2*5\<close>, whose only least-squares solution is \<open>13/6\<close>.
\<close>

theorem fit_gap_simple_end_to_end:
  assumes "\<forall>(s, v)\<in>set tbl. v = 0" and "len_atoms g1 = 1" and "len_atoms g2 = 1"
  shows "fit_gap_simple lstsq [g1, g2] \<lparr>ncols = 1, rows = [[1]]\<rparr> [3, 5]
            \<lparr>ncols = 1, rows = [[1], [2]]\<rparr> 1 tbl None None None None
           = lstsq \<lparr>ncols = 1, rows = [[1 + 1 * 1 + 2 * 2]]\<rparr> [1 * 3 + 2 * 5] None
       \<and> (\<forall>w. least_squares \<lparr>ncols = 1, rows = [[1 + 1 * 1 + 2 * 2]]\<rparr> [1 * 3 + 2 * 5] w
                \<longleftrightarrow> w = [13 / 6])"
proof -
  let ?KE = "\<lparr>ncols = Suc 0, rows = [[1], [2]]\<rparr>"
  let ?KMM = "\<lparr>ncols = Suc 0, rows = [[1]]\<rparr>"
  have z: "get_energy_baseline g1 tbl = 0" "get_energy_baseline g2 tbl = 0"
    using assms(1) by (simp_all add: baseline_zero_table)
  have a: "assemble_design [g1, g2] [3, 5] ?KE 1 tbl None None None
           = Inr (?KE, [3, 5])"
    using assms(2,3) z
    by (simp add: assemble_design_energies nrows_def spec_energy_rows_def
        spec_energy_targets_def energy_scale_def upt_rec[of 0] upt_rec[of "Suc 0"])
  have m: "spec_normal_matrix ?KMM ?KE = \<lparr>ncols = Suc 0, rows = [[6]]\<rparr>"
    by (simp add: spec_normal_matrix_def nrows_def entry_def upt_rec[of 0] upt_rec[of "Suc 0"])
  have r: "spec_normal_rhs ?KE [3, 5] = [13]"
    by (simp add: spec_normal_rhs_def nrows_def entry_def upt_rec[of 0] upt_rec[of "Suc 0"])
  have s: "solve_normal_equations lstsq ?KMM ?KE [3, 5] None
           = lstsq (spec_normal_matrix ?KMM ?KE) (spec_normal_rhs ?KE [3, 5]) None"
    by (rule solve_normal_equations_shaped) (simp_all add: wf_matrix_def nrows_def)
  have "fit_gap_simple lstsq [g1, g2] ?KMM [3, 5] ?KE 1 tbl None None None None
        = lstsq \<lparr>ncols = Suc 0, rows = [[6]]\<rparr> [13] None"
    by (simp only: fit_gap_simple_unfold[OF a] s m r)
  moreover have "least_squares \<lparr>ncols = Suc 0, rows = [[6]]\<rparr> [13] w \<longleftrightarrow> w = [13 / 6]" for w
    by (auto simp: least_squares_1x1)
  ultimately show ?thesis by simp
qed

theorem fit_gap_simple_end_to_end_witness:
  "fit_gap_simple lstsq_1x1 [\<lparr>numbers = [1]\<rparr>, \<lparr>numbers = [8]\<rparr>] \<lparr>ncols = 1, rows = [[1]]\<rparr> [3, 5]
      \<lparr>ncols = 1, rows = [[1], [2]]\<rparr> 1 [(1, 0), (8, 0)] None None None None = Inr [13 / 6]
   \<and> least_squares \<lparr>ncols = 1, rows = [[6]]\<rparr> [13] [13 / 6]"
  using fit_gap_simple_end_to_end
    [of "[(1, 0), (8, 0)]" "\<lparr>numbers = [1]\<rparr>" "\<lparr>numbers = [8]\<rparr>" lstsq_1x1]
  by (simp add: len_atoms_def lstsq_1x1_eval)

text \<open>
  C5.  With forces given and the gradient kernel or the force regularizer left out,
  \<open>fit_gap_simple\<close> raises: for every solver and all other arguments the result is an
  error, never a weight vector.
\<close>

theorem fit_gap_simple_partial_force_config:
  "kgs = None \<or> freg = None \<Longrightarrow>
   \<exists>e. fit_gap_simple lstsq geoms K_MM energies K_E ereg tbl (Some f) kgs freg rcond = Inl e"
  by (auto simp: fit_gap_simple_def assemble_design_def Let_def bind_err_def
      div_gradients_def split: sum.splits option.splits)

theorem fit_gap_simple_partial_force_config_witness:
  "fit_gap_simple lstsq_1x1 [\<lparr>numbers = [1]\<rparr>] \<lparr>ncols = 1, rows = [[1]]\<rparr> [3]
      \<lparr>ncols = 1, rows = [[1]]\<rparr> 1 [] (Some (Forces2 [[1, 2, 3]])) None (Some 1) None
     = Inl TypeError"
  using fit_gap_simple_partial_force_config
    [of None "Some 1" lstsq_1x1 "[\<lparr>numbers = [1]\<rparr>]" "\<lparr>ncols = 1, rows = [[1]]\<rparr>" "[3]"
       "\<lparr>ncols = 1, rows = [[1]]\<rparr>" 1 "[]" "Forces2 [[1, 2, 3]]" None]
  by (simp add: fit_gap_simple_def assemble_design_def bind_err_def np_binop_vec_def
      np_div_column_def nrows_def div_gradients_def len_atoms_def get_energy_baseline_def
      broadcast_len_def stretch_def)

text \<open>
  C6.  Without forces, the gradient kernel and the force regularizer are not read: two
  calls that differ only in them have the same result (the same weights, or the same
  error).
\<close>

theorem fit_gap_simple_ignores_force_arguments:
  "fit_gap_simple lstsq geoms K_MM energies K_E ereg tbl None kgs freg rcond =
   fit_gap_simple lstsq geoms K_MM energies K_E ereg tbl None kgs' freg' rcond"
  by (simp add: fit_gap_simple_def assemble_design_def)

subsection \<open>The kernels returned by \<open>compute_kernels\<close>\<close>

lemma bind_io_Inr:
  "bind_io m f w = (Inr r, w') \<longleftrightarrow> (\<exists>x w1. m w = (Inr x, w1) \<and> f x w1 = (Inr r, w'))"
  by (auto simp: bind_io_def split: prod.splits sum.splits)

lemma call_kernel_Inr:
  "call_kernel env k c w = (Inr a, w') \<longleftrightarrow>
     evaluate env k c = Inr a \<and> w' = w\<lparr>calls := calls w @ [c]\<rparr>"
  by (auto simp: call_kernel_def)

lemma save_Inr:
  "save env p a w = (Inr u, w') \<longleftrightarrow> (\<exists>fs. np_save env p a (files w) = Inr fs \<and> w' = w\<lparr>files := fs\<rparr>)"
  by (auto simp: save_def split: sum.splits)

lemma return_io_Inr: "return_io x w = (Inr r, w') \<longleftrightarrow> r = x \<and> w' = w"
  by (auto simp: return_io_def)

lemma construct_kernel_Inr:
  "construct_kernel env rep z w = (Inr k, w') \<longleftrightarrow> Kernel env rep z = Inr k \<and> w' = w"
  by (auto simp: construct_kernel_def)

lemmas io_Inr = bind_io_Inr call_kernel_Inr save_Inr return_io_Inr construct_kernel_Inr

lemma compute_kernels_returns:
  assumes "compute_kernels env WORKDIR rep soaps sparse_points soap_power do_gradients
             compute_sparse_kernel w = (Inr r, w')"
  shows "(gradient_kernel_of r \<noteq> None) = do_gradients"
    and "do_gradients \<Longrightarrow> \<exists>k kmm knm kg. r = Tuple4 k kmm knm kg
            \<and> evaluate env k \<lparr>arg_X = soaps, arg_Y = Some sparse_points,
                 arg_grad = (True, False)\<rparr> = Inr kg"
    and "\<not> do_gradients \<Longrightarrow> \<exists>k kmm knm. r = Tuple3 k kmm knm"
    and "\<not> compute_sparse_kernel \<Longrightarrow> sparse_kernel_of r = np_array_empty"
    and "\<not> compute_sparse_kernel \<Longrightarrow> calls w' = calls w
           @ \<lparr>arg_X = soaps, arg_Y = Some sparse_points, arg_grad = (False, False)\<rparr>
           # (if do_gradients
              then [\<lparr>arg_X = soaps, arg_Y = Some sparse_points, arg_grad = (True, False)\<rparr>]
              else [])"
  using assms
  by (auto simp: compute_kernels_def io_Inr split: if_splits)

lemma compute_kernels_succeeds:
  assumes "collaborators_succeed env"
  shows "\<exists>r w'. compute_kernels env WORKDIR rep soaps sparse_points soap_power do_gradients
             compute_sparse_kernel w = (Inr r, w')"
proof -
  from assms have K: "\<And>rep zeta. \<exists>k. Kernel env rep zeta = Inr k"
    and E: "\<And>k c. \<exists>a. evaluate env k c = Inr a"
    and S: "\<And>path a fs. \<exists>fs'. np_save env path a fs = Inr fs'"
    by (auto simp: collaborators_succeed_def)
  have call: "\<exists>a. call_kernel env k c w0 = (Inr a, w0\<lparr>calls := calls w0 @ [c]\<rparr>)" for k c w0
    using E[of k c] by (auto simp: call_kernel_def)
  have sv: "\<exists>w1. save env p a w0 = (Inr (), w1)" for p a w0
    using S[of p a "files w0"] by (auto simp: save_def)
  obtain k where k: "Kernel env rep soap_power = Inr k" using K by blast
  show ?thesis
    unfolding compute_kernels_def bind_io_Inr construct_kernel_Inr return_io_Inr
    using k call sv
    by (cases do_gradients; cases compute_sparse_kernel) (simp_all add: bind_io_Inr return_io_Inr, metis+)
qed


text \<open>
  C8.  Whenever \<open>compute_kernels\<close> returns, the tuple has the gradient kernel, last of
  four components and the result of the evaluation with \<open>grad=(True, False)\<close>, exactly
  when \<open>do_gradients\<close> is true, and three components otherwise; with
  \<open>compute_sparse_kernel\<close> false its second component is the empty array and the only
  kernel evaluations made are those of the energy kernel and, if asked, the gradient
  kernel, none of the sparse points alone.  It returns whenever the collaborators raise
  nothing.
\<close>

theorem compute_kernels_result:
  "(\<forall>r w'. compute_kernels env WORKDIR rep soaps sparse_points soap_power do_gradients
              compute_sparse_kernel w = (Inr r, w') \<longrightarrow>
      (if do_gradients
       then \<exists>k kmm knm kg. r = Tuple4 k kmm knm kg
              \<and> evaluate env k \<lparr>arg_X = soaps, arg_Y = Some sparse_points,
                   arg_grad = (True, False)\<rparr> = Inr kg
       else \<exists>k kmm knm. r = Tuple3 k kmm knm)
      \<and> (\<not> compute_sparse_kernel \<longrightarrow>
           sparse_kernel_of r = np_array_empty
           \<and> calls w' = calls w
               @ \<lparr>arg_X = soaps, arg_Y = Some sparse_points, arg_grad = (False, False)\<rparr>
               # (if do_gradients
                  then [\<lparr>arg_X = soaps, arg_Y = Some sparse_points, arg_grad = (True, False)\<rparr>]
                  else [])))
   \<and> (collaborators_succeed env \<longrightarrow>
        (\<exists>r w'. compute_kernels env WORKDIR rep soaps sparse_points soap_power do_gradients
                   compute_sparse_kernel w = (Inr r, w')))"
proof (intro conjI allI impI)
  fix r w'
  assume a: "compute_kernels env WORKDIR rep soaps sparse_points soap_power do_gradients
              compute_sparse_kernel w = (Inr r, w')"
  show "if do_gradients
       then \<exists>k kmm knm kg. r = Tuple4 k kmm knm kg
              \<and> evaluate env k \<lparr>arg_X = soaps, arg_Y = Some sparse_points,
                   arg_grad = (True, False)\<rparr> = Inr kg
       else \<exists>k kmm knm. r = Tuple3 k kmm knm"
    using compute_kernels_returns(2,3)[OF a] by (cases do_gradients) simp_all
  assume "\<not> compute_sparse_kernel"
  then show "sparse_kernel_of r = np_array_empty"
    and "calls w' = calls w
               @ \<lparr>arg_X = soaps, arg_Y = Some sparse_points, arg_grad = (False, False)\<rparr>
               # (if do_gradients
                  then [\<lparr>arg_X = soaps, arg_Y = Some sparse_points, arg_grad = (True, False)\<rparr>]
                  else [])"
    using compute_kernels_returns(4,5)[OF a] by simp_all
next
  assume "collaborators_succeed env"
  then show "\<exists>r w'. compute_kernels env WORKDIR rep soaps sparse_points soap_power do_gradients
                   compute_sparse_kernel w = (Inr r, w')"
    by (rule compute_kernels_succeeds)
qed

lemma example_collaborators_succeed: "collaborators_succeed example_collaborators"
  by (simp add: collaborators_succeed_def example_collaborators_def)

theorem compute_kernels_result_witness:
  "compute_kernels example_collaborators ''/work'' () 5 7 2 True False \<lparr>calls = [], files = []\<rparr>
     = (Inr (Tuple4 () (Array1 []) (Array2 \<lparr>ncols = 1, rows = [[1]]\<rparr>)
               (Array2 \<lparr>ncols = 1, rows = [[1]]\<rparr>)),
        \<lparr>calls = [\<lparr>arg_X = 5, arg_Y = Some 7, arg_grad = (False, False)\<rparr>,
                  \<lparr>arg_X = 5, arg_Y = Some 7, arg_grad = (True, False)\<rparr>],
         files = [(''/work/K_NM_E'', Array2 \<lparr>ncols = 1, rows = [[1]]\<rparr>),
                  (''/work/K_NM_F'', Array2 \<lparr>ncols = 1, rows = [[1]]\<rparr>)]\<rparr>)
   \<and> compute_kernels example_collaborators ''/work'' () 5 7 2 False False \<lparr>calls = [], files = []\<rparr>
     = (Inr (Tuple3 () (Array1 []) (Array2 \<lparr>ncols = 1, rows = [[1]]\<rparr>)),
        \<lparr>calls = [\<lparr>arg_X = 5, arg_Y = Some 7, arg_grad = (False, False)\<rparr>],
         files = [(''/work/K_NM_E'', Array2 \<lparr>ncols = 1, rows = [[1]]\<rparr>)]\<rparr>)"
  using compute_kernels_result
    [of example_collaborators "''/work''" "()" 5 7 2 True False "\<lparr>calls = [], files = []\<rparr>"]
    example_collaborators_succeed
  by (simp add: compute_kernels_def example_collaborators_def bind_io_def construct_kernel_def
      call_kernel_def save_def return_io_def os_path_join_def np_array_empty_def)

subsection \<open>The store after \<open>fit_gap_simple\<close>\<close>

lemma keeps_return: "Q x \<Longrightarrow> keeps h0 Q (return_h x)"
  by (simp add: keeps_def return_h_def)

lemma keeps_lift: "keeps h0 (\<lambda>_. True) (lift_h r)"
  by (simp add: keeps_def lift_h_def)

lemma keeps_bind:
  assumes "keeps h0 P m" and "\<And>x. P x \<Longrightarrow> keeps h0 Q (f x)"
  shows "keeps h0 Q (bind_h m f)"
  unfolding keeps_def
proof (intro allI impI)
  fix h res h'
  assume a: "prefix h0 h \<and> bind_h m f h = (res, h')"
  obtain r1 h1 where m: "m h = (r1, h1)" by (cases "m h")
  with a assms(1) have p1: "prefix h0 h1" and q1: "\<forall>x. r1 = Inr x \<longrightarrow> P x"
    unfolding keeps_def by blast+
  show "prefix h0 h' \<and> (\<forall>x. res = Inr x \<longrightarrow> Q x)"
  proof (cases r1)
    case (Inl e)
    with a m p1 show ?thesis by (auto simp: bind_h_def)
  next
    case (Inr x)
    with a m have "f x h1 = (res, h')" by (simp add: bind_h_def)
    moreover from Inr q1 have "P x" by simp
    ultimately show ?thesis
      using assms(2)[of x] p1 unfolding keeps_def by blast
  qed
qed

lemma keeps_alloc: "keeps h0 (\<lambda>r. length h0 \<le> r) (alloc v)"
  by (auto simp: keeps_def alloc_def prefix_def)

lemma keeps_read_atoms: "keeps h0 (\<lambda>_. True) (read_atoms r)"
  by (auto simp: keeps_def read_atoms_def split: obj.splits if_splits)

lemma keeps_read_vec: "keeps h0 (\<lambda>_. True) (read_vec r)"
  by (auto simp: keeps_def read_vec_def split: obj.splits if_splits)

lemma keeps_read_mat: "keeps h0 (\<lambda>_. True) (read_mat r)"
  by (auto simp: keeps_def read_mat_def split: obj.splits if_splits)

lemma keeps_read_forces: "keeps h0 (\<lambda>_. True) (read_forces r)"
  by (auto simp: keeps_def read_forces_def split: obj.splits if_splits)

lemma keeps_new_vec: "keeps h0 (\<lambda>r. length h0 \<le> r) (new_vec r)"
  unfolding new_vec_def by (rule keeps_bind[OF keeps_lift]) (rule keeps_alloc)

lemma keeps_new_mat: "keeps h0 (\<lambda>r. length h0 \<le> r) (new_mat r)"
  unfolding new_mat_def by (rule keeps_bind[OF keeps_lift]) (rule keeps_alloc)

lemma keeps_map_h:
  assumes "\<And>x. keeps h0 (\<lambda>_. True) (f x)"
  shows "keeps h0 (\<lambda>_. True) (map_h f xs)"
proof (induction xs)
  case Nil
  show ?case by (simp add: keeps_return)
next
  case (Cons x xs)
  show ?case
    unfolding map_h.simps
    by (rule keeps_bind[OF assms], rule keeps_bind[OF Cons.IH], rule keeps_return) simp
qed

lemma prefix_update_beyond:
  assumes "prefix h0 h" and "length h0 \<le> r"
  shows "prefix h0 (h[r := v])"
  using assms by (auto simp: prefix_def list_update_append)

lemma keeps_lstsq_h:
  assumes "length h0 \<le> K" and "length h0 \<le> b"
  shows "keeps h0 (\<lambda>r. length h0 \<le> r) (lstsq_h lstsq K b rcond)"
  unfolding lstsq_h_def
proof (rule keeps_bind[OF keeps_read_mat], rule keeps_bind[OF keeps_read_vec])
  fix A y
  show "keeps h0 (\<lambda>r. length h0 \<le> r)
          (\<lambda>h. case lstsq A y rcond of
                 (res, A', y') \<Rightarrow> new_vec res (h[K := ObjMat A', b := ObjVec y']))"
    unfolding keeps_def
  proof (intro allI impI)
    fix h res h'
    assume a: "prefix h0 h \<and>
        (case lstsq A y rcond of
           (res, A', y') \<Rightarrow> new_vec res (h[K := ObjMat A', b := ObjVec y'])) = (res, h')"
    obtain r A' y' where l: "lstsq A y rcond = (r, A', y')" by (cases "lstsq A y rcond")
    from a assms have "prefix h0 (h[K := ObjMat A', b := ObjVec y'])"
      by (simp add: prefix_update_beyond)
    moreover from a l have "new_vec r (h[K := ObjMat A', b := ObjVec y']) = (res, h')"
      by simp
    ultimately show "prefix h0 h' \<and> (\<forall>x. res = Inr x \<longrightarrow> length h0 \<le> x)"
      using keeps_new_vec[of h0 r] unfolding keeps_def by blast
  qed
qed

lemmas keeps_step =
  keeps_bind[OF keeps_alloc] keeps_bind[OF keeps_read_atoms] keeps_bind[OF keeps_read_vec]
  keeps_bind[OF keeps_read_mat] keeps_bind[OF keeps_read_forces] keeps_bind[OF keeps_new_vec]
  keeps_bind[OF keeps_new_mat]

lemma keeps_baselines:
  "keeps h0 (\<lambda>_. True) (map_h (\<lambda>geom. bind_h (read_atoms geom) (\<lambda>a. return_h (g a))) geoms)"
  by (rule keeps_map_h, rule keeps_bind[OF keeps_read_atoms], rule keeps_return) simp

lemma keeps_fit_gap_simple_h:
  "keeps h0 (\<lambda>r. length h0 \<le> r)
     (fit_gap_simple_h lstsq geoms kernel_sparse energies kernel_energies_sparse ereg tbl
        forces kgs freg rcond)"
  unfolding fit_gap_simple_h_def
  apply (rule keeps_bind[OF keeps_baselines])
  apply (intro keeps_step)
  apply (rule keeps_bind[OF keeps_baselines])
  apply (intro keeps_step)
  apply (rule keeps_bind[where P = "\<lambda>(K_NM, Y). length h0 \<le> K_NM \<and> length h0 \<le> Y"])
  subgoal for e0s e0_all es e0 energies_shifted ns natoms_list na energy_regularizer ke er
      kernel_energies_norm
    apply (cases forces)
     apply simp
     apply (intro keeps_step)
     apply (rule keeps_return)
     apply simp
    apply simp
    apply (intro keeps_step)
    apply (rule keeps_bind[where P = "\<lambda>_. True"])
     apply (cases kgs)
      apply (simp add: keeps_return)
     apply simp
     apply (rule keeps_bind[OF keeps_read_mat])
     apply (simp add: keeps_return)
    apply (intro keeps_step)
    apply (rule keeps_return)
    apply simp
    done
  subgoal for e0s e0_all es e0 energies_shifted ns natoms_list na energy_regularizer ke er
      kernel_energies_norm KY
    apply (cases KY)
    apply simp
    apply (intro keeps_step)
    apply (rule keeps_lstsq_h)
     apply simp_all
    done
  done

lemma map_h_atoms:
  assumes "list_all2 (\<lambda>r a. r < length h \<and> h ! r = ObjAtoms a) refs geoms"
  shows "map_h (\<lambda>geom. bind_h (read_atoms geom) (\<lambda>a. return_h (g a))) refs h
         = (Inr (map g geoms), h)"
  using assms
  by (induction refs geoms rule: list_all2_induct)
     (simp_all add: return_h_def bind_h_def read_atoms_def)



lemma map_h_atoms_ext:
  assumes "list_all2 (\<lambda>r a. r < length h \<and> h ! r = ObjAtoms a) refs geoms"
  shows "map_h (\<lambda>geom. bind_h (read_atoms geom) (\<lambda>a. return_h (g a))) refs (h @ ext)
         = (Inr (map g geoms), h @ ext)"
proof (rule map_h_atoms)
  show "list_all2 (\<lambda>r a. r < length (h @ ext) \<and> (h @ ext) ! r = ObjAtoms a) refs geoms"
    using assms by (rule list_all2_mono) (simp add: nth_append)
qed

lemmas heap_eval = bind_h_def alloc_def read_vec_def read_mat_def read_forces_def new_vec_def
  new_mat_def lift_h_def return_h_def nth_append

lemma fit_gap_simple_h_refines_energies:
  assumes g: "list_all2 (\<lambda>r a. r < length h \<and> h ! r = ObjAtoms a) geom_refs geoms"
    and i: "ks < length h" "h ! ks = ObjMat K_MM"
      "en < length h" "h ! en = ObjVec energies"
      "ke < length h" "h ! ke = ObjMat K_E"
    and r: "fit_gap_simple_h lstsq geom_refs ks en ke ereg tbl None kgs_ref freg rcond h = (res, h')"
  shows "map_sum id (\<lambda>w. h' ! w) res =
         map_sum id ObjVec
           (fit_gap_simple (result_of lstsq) geoms K_MM energies K_E ereg tbl None kgs freg rcond)"
proof -
  let ?e0 = "map (\<lambda>geom. get_energy_baseline geom tbl) geoms"
  let ?er = "map (\<lambda>n. ereg * sqrt (real n)) (map len_atoms geoms)"
  note u = fit_gap_simple_h_def fit_gap_simple_def assemble_design_def
    solve_normal_equations_def lstsq_h_def result_of_def bind_err_def Let_def
  show ?thesis
  proof (cases "np_binop_vec (-) energies ?e0")
    case (Inl e)
    with r i show ?thesis
      unfolding u by (auto simp add: map_h_atoms[OF g] map_h_atoms_ext[OF g] heap_eval)
  next
    case es: (Inr es)
    show ?thesis
    proof (cases "np_div_column K_E ?er")
      case (Inl e)
      with r i es show ?thesis
        unfolding u by (auto simp add: map_h_atoms[OF g] map_h_atoms_ext[OF g] heap_eval comp_def)
    next
      case ken: (Inr ken)
      show ?thesis
      proof (cases "np_binop_vec (/) es ?er")
        case (Inl e)
        with r i es ken show ?thesis
          unfolding u by (auto simp add: map_h_atoms[OF g] map_h_atoms_ext[OF g] heap_eval comp_def)
      next
        case Y: (Inr Y)
        show ?thesis
        proof (cases "np_matmul (np_transpose ken) ken")
          case (Inl e)
          with r i es ken Y show ?thesis
            unfolding u by (auto simp add: map_h_atoms[OF g] map_h_atoms_ext[OF g] heap_eval comp_def)
        next
          case ktk: (Inr ktk)
          show ?thesis
          proof (cases "np_add_matrix K_MM ktk")
            case (Inl e)
            with r i es ken Y ktk show ?thesis
              unfolding u by (auto simp add: map_h_atoms[OF g] map_h_atoms_ext[OF g] heap_eval comp_def)
          next
            case K: (Inr K)
            show ?thesis
            proof (cases "np_matvec (np_transpose ken) Y")
              case (Inl e)
              with r i es ken Y ktk K show ?thesis
                unfolding u by (auto simp add: map_h_atoms[OF g] map_h_atoms_ext[OF g] heap_eval comp_def)
            next
              case b: (Inr b)
              obtain w A' y' where l: "lstsq K b rcond = (w, A', y')"
                by (cases "lstsq K b rcond")
              with r i es ken Y ktk K b show ?thesis
                unfolding u by (cases w) (auto simp add: map_h_atoms[OF g] map_h_atoms_ext[OF g] heap_eval comp_def)
            qed
          qed
        qed
      qed
    qed
  qed
qed


lemma fit_gap_simple_h_refines_forces:
  assumes g: "list_all2 (\<lambda>r a. r < length h \<and> h ! r = ObjAtoms a) geom_refs geoms"
    and i: "ks < length h" "h ! ks = ObjMat K_MM"
      "en < length h" "h ! en = ObjVec energies"
      "ke < length h" "h ! ke = ObjMat K_E"
      "fo < length h" "h ! fo = ObjForces f"
    and k: "rel_option (\<lambda>r A. r < length h \<and> h ! r = ObjMat A) kgs_ref kgs"
    and r: "fit_gap_simple_h lstsq geom_refs ks en ke ereg tbl (Some fo) kgs_ref freg rcond h
              = (res, h')"
  shows "map_sum id (\<lambda>w. h' ! w) res =
         map_sum id ObjVec
           (fit_gap_simple (result_of lstsq) geoms K_MM energies K_E ereg tbl (Some f) kgs freg
              rcond)"
proof -
  let ?e0 = "map (\<lambda>geom. get_energy_baseline geom tbl) geoms"
  let ?er = "map (\<lambda>n. ereg * sqrt (real n)) (map len_atoms geoms)"
  note u = fit_gap_simple_h_def fit_gap_simple_def assemble_design_def
    solve_normal_equations_def lstsq_h_def result_of_def bind_err_def Let_def
  note ev = map_h_atoms[OF g] map_h_atoms_ext[OF g] heap_eval comp_def
  have kk: "(kgs_ref = None \<and> kgs = None)
            \<or> (\<exists>kr A. kgs_ref = Some kr \<and> kgs = Some A \<and> kr < length h \<and> h ! kr = ObjMat A)"
    using k by (cases kgs_ref; cases kgs) simp_all
  show ?thesis
  proof (cases "np_binop_vec (-) energies ?e0")
    case (Inl e)
    with r i show ?thesis
      unfolding u by (auto simp add: ev)
  next
    case es: (Inr es)
    show ?thesis
    proof (cases "np_div_column K_E ?er")
      case (Inl e)
      with r i es show ?thesis
        unfolding u by (auto simp add: ev)
    next
      case ken: (Inr ken)
      show ?thesis
      proof (cases "div_gradients kgs freg")
        case (Inl e)
        with r i es ken kk show ?thesis
          unfolding u by (auto simp add: ev)
      next
        case kgn: (Inr kgn)
        show ?thesis
        proof (cases "np_vstack ken kgn")
          case (Inl e)
          with r i es ken kk kgn show ?thesis
            unfolding u by (auto simp add: ev)
        next
          case knm: (Inr knm)
          show ?thesis
          proof (cases "np_binop_vec (/) es ?er")
            case (Inl e)
            with r i es ken kk kgn knm show ?thesis
              unfolding u by (auto simp add: ev)
          next
            case ye: (Inr ye)
            show ?thesis
            proof (cases "div_targets (flatten (np_neg_forces f)) freg")
              case (Inl e)
              with r i es ken kk kgn knm ye show ?thesis
                unfolding u by (auto simp add: ev)
            next
              case yg: (Inr yg)
              show ?thesis
              proof (cases "np_matmul (np_transpose knm) knm")
                case (Inl e)
                with r i es ken kk kgn knm ye yg show ?thesis
                  unfolding u by (auto simp add: ev)
              next
                case ktk: (Inr ktk)
                show ?thesis
                proof (cases "np_add_matrix K_MM ktk")
                  case (Inl e)
                  with r i es ken kk kgn knm ye yg ktk show ?thesis
                    unfolding u by (auto simp add: ev)
                next
                  case K: (Inr K)
                  show ?thesis
                  proof (cases "np_matvec (np_transpose knm) (np_concatenate ye yg)")
                    case (Inl e)
                    with r i es ken kk kgn knm ye yg ktk K show ?thesis
                      unfolding u by (auto simp add: ev)
                  next
                    case b: (Inr b)
                    obtain w A' y' where l: "lstsq K b rcond = (w, A', y')"
                      by (cases "lstsq K b rcond")
                    with r i es ken kk kgn knm ye yg ktk K b show ?thesis
                      unfolding u by (cases w) (auto simp add: ev)
                  qed
                qed
              qed
            qed
          qed
        qed
      qed
    qed
  qed
qed


lemma fit_gap_simple_h_refines:
  assumes "list_all2 (\<lambda>r a. r < length h \<and> h ! r = ObjAtoms a) geom_refs geoms"
    and "ks < length h" "h ! ks = ObjMat K_MM"
    and "en < length h" "h ! en = ObjVec energies"
    and "ke < length h" "h ! ke = ObjMat K_E"
    and "rel_option (\<lambda>r f. r < length h \<and> h ! r = ObjForces f) forces_ref forces"
    and "rel_option (\<lambda>r A. r < length h \<and> h ! r = ObjMat A) kgs_ref kgs"
    and "fit_gap_simple_h lstsq geom_refs ks en ke ereg tbl forces_ref kgs_ref freg rcond h
           = (res, h')"
  shows "map_sum id (\<lambda>w. h' ! w) res =
         map_sum id ObjVec
           (fit_gap_simple (result_of lstsq) geoms K_MM energies K_E ereg tbl forces kgs freg
              rcond)"
proof (cases forces_ref)
  case None
  with assms(8) have "forces = None" by (cases forces) simp_all
  with None assms show ?thesis
    by (simp add: fit_gap_simple_h_refines_energies)
next
  case (Some fo)
  with assms(8) obtain f where "forces = Some f" "fo < length h" "h ! fo = ObjForces f"
    by (cases forces) simp_all
  with Some assms show ?thesis
    by (simp add: fit_gap_simple_h_refines_forces)
qed

text \<open>
  C9.  A call of \<open>fit_gap_simple\<close> on a store, whether it returns weights or raises,
  ends in a store that extends the one it started in: every array and structure that
  existed before the call, so each of its arguments, holds the value it held, and the
  weights and all intermediate arrays are new.  This holds whatever the least-squares
  routine leaves in the two arrays it is handed, both being new.
\<close>

theorem fit_gap_simple_leaves_inputs:
  assumes "fit_gap_simple_h lstsq geoms kernel_sparse energies kernel_energies_sparse ereg tbl
             forces kernel_gradients_sparse force_regularizer rcond h = (res, h')"
  shows "prefix h h' \<and> (\<forall>r<length h. h' ! r = h ! r) \<and> (\<forall>w. res = Inr w \<longrightarrow> length h \<le> w)"
proof -
  have "keeps h (\<lambda>r. length h \<le> r)
     (fit_gap_simple_h lstsq geoms kernel_sparse energies kernel_energies_sparse ereg tbl
        forces kernel_gradients_sparse force_regularizer rcond)"
    by (rule keeps_fit_gap_simple_h)
  with assms have p: "prefix h h'" and w: "\<forall>w. res = Inr w \<longrightarrow> length h \<le> w"
    unfolding keeps_def by blast+
  from p have "\<forall>r<length h. h' ! r = h ! r"
    by (auto simp: prefix_def nth_append)
  with p w show ?thesis by blast
qed

theorem fit_gap_simple_leaves_inputs_witness:
  "fit_gap_simple_h (\<lambda>A b rcond. (lstsq_1x1 A b rcond, \<lparr>ncols = 0, rows = []\<rparr>, []))
     [0] 1 2 3 1 [] None None None None
     [ObjAtoms \<lparr>numbers = [1]\<rparr>, ObjMat \<lparr>ncols = 1, rows = [[1]]\<rparr>, ObjVec [3],
      ObjMat \<lparr>ncols = 1, rows = [[1]]\<rparr>]
   = (Inr 13,
      [ObjAtoms \<lparr>numbers = [1]\<rparr>, ObjMat \<lparr>ncols = 1, rows = [[1]]\<rparr>, ObjVec [3],
       ObjMat \<lparr>ncols = 1, rows = [[1]]\<rparr>]
      @ [ObjVec [0], ObjVec [3], ObjVec [1], ObjVec [1], ObjMat \<lparr>ncols = 1, rows = [[1]]\<rparr>,
         ObjVec [3], ObjMat \<lparr>ncols = 1, rows = [[1]]\<rparr>, ObjMat \<lparr>ncols = 0, rows = []\<rparr>,
         ObjVec [], ObjVec [3 / 2]])"
  using fit_gap_simple_leaves_inputs
    [of "\<lambda>A b rcond. (lstsq_1x1 A b rcond, \<lparr>ncols = 0, rows = []\<rparr>, [])"
        "[0]" 1 2 3 1 "[]" None None None None
        "[ObjAtoms \<lparr>numbers = [1]\<rparr>, ObjMat \<lparr>ncols = 1, rows = [[1]]\<rparr>, ObjVec [3],
          ObjMat \<lparr>ncols = 1, rows = [[1]]\<rparr>]"]
  by (simp add: fit_gap_simple_h_def lstsq_h_def bind_h_def return_h_def read_atoms_def
      read_vec_def read_mat_def alloc_def new_vec_def new_mat_def lift_h_def
      get_energy_baseline_def len_atoms_def np_binop_vec_def np_div_column_def nrows_def
      broadcast_len_def stretch_def np_matmul_def np_transpose_def np_add_matrix_def
      np_matvec_def column_def dot_def lstsq_1x1_def)

end
